theory Spec2Isabelle
  imports Complex_Main
begin

section \<open>Python strings\<close>

text \<open>
  A Python \<open>str\<close> is modelled as a \<open>string\<close>, one \<open>char\<close> per code point, for
  the code points 0 to 255 (ASCII and Latin-1).  The character classes below are the ones
  CPython uses on that range: \<open>str.isspace\<close>, \<open>str.strip()\<close> and the regular
  expression class \<open>\s\<close> all test the same whitespace set, and \<open>str.lower\<close> adds 32
  to the upper-case letters.  Of the glyphs the source names, only the middle dot (183)
  lies in this range.
\<close>

definition is_space :: "char \<Rightarrow> bool" where
  "is_space c =
     (let n = (of_char c :: nat)
      in (9 \<le> n \<and> n \<le> 13) \<or> (28 \<le> n \<and> n \<le> 32) \<or> n = 133 \<or> n = 160)"

definition is_ascii_alpha :: "char \<Rightarrow> bool" where
  "is_ascii_alpha c =
     (let n = (of_char c :: nat) in (65 \<le> n \<and> n \<le> 90) \<or> (97 \<le> n \<and> n \<le> 122))"

definition lower_char :: "char \<Rightarrow> char" where
  "lower_char c =
     (let n = (of_char c :: nat)
      in if (65 \<le> n \<and> n \<le> 90) \<or> (192 \<le> n \<and> n \<le> 222 \<and> n \<noteq> 215)
         then char_of (n + 32) else c)"

definition lower :: "string \<Rightarrow> string" where
  "lower s = map lower_char s"

text \<open>\<open>s.strip(chars)\<close>: drop the characters of the set from both ends.\<close>

definition strip_set :: "(char \<Rightarrow> bool) \<Rightarrow> string \<Rightarrow> string" where
  "strip_set p s = rev (dropWhile p (rev (dropWhile p s)))"

definition strip :: "string \<Rightarrow> string" where
  "strip s = strip_set is_space s"

text \<open>\<open>needle in haystack\<close> on strings: a contiguous occurrence.\<close>

fun starts_with :: "string \<Rightarrow> string \<Rightarrow> bool" where
  "starts_with [] ys = True"
| "starts_with (x # xs) [] = False"
| "starts_with (x # xs) (y # ys) = (x = y \<and> starts_with xs ys)"

fun contains :: "string \<Rightarrow> string \<Rightarrow> bool" where
  "contains needle [] = (needle = [])"
| "contains needle (y # ys) = (starts_with needle (y # ys) \<or> contains needle ys)"

section \<open>Resume parser: order-preserving deduplication\<close>

text \<open>
  \<^verbatim>\<open>
  def uniq(seq):
      seen = set(); out = []
      for x in seq:
          k = x.strip().lower()
          if k and k not in seen:
              seen.add(k); out.append(x.strip())
      return out
  \<close>
  The loop carries \<open>seen\<close>; \<open>out\<close> is built in order.
\<close>

fun uniq_loop :: "string set \<Rightarrow> string list \<Rightarrow> string list" where
  "uniq_loop seen [] = []"
| "uniq_loop seen (x # xs) =
     (let k = lower (strip x)
      in if k \<noteq> [] \<and> k \<notin> seen then strip x # uniq_loop (insert k seen) xs
         else uniq_loop seen xs)"

definition uniq :: "string list \<Rightarrow> string list" where
  "uniq seq = uniq_loop {} seq"

section \<open>Regular expressions, as the \<open>re\<close> module runs them\<close>

text \<open>
  The patterns of the parser are kept as syntax trees and run by a backtracking matcher
  that lists the ways a pattern can match at a position, in the order \<open>re\<close> tries them:
  the left alternative before the right one, a greedy repetition longest first, a lazy one
  shortest first.  The match \<open>re\<close> reports is the head of that list.  Repetition is only
  ever applied to a single character class in the source's patterns, so \<open>Star\<close> and
  \<open>LazyStar\<close> take a class.  A match state is the text still to be read and the groups
  captured so far.
\<close>

datatype rx =
    Cls "char \<Rightarrow> bool"
  | Eps
  | Seq rx rx
  | Alt rx rx
  | Star "char \<Rightarrow> bool"
  | LazyStar "char \<Rightarrow> bool"
  | Grp nat rx
  | Look rx
  | EndZ

type_synonym groups = "(nat \<times> string) list"

type_synonym mstate = "string \<times> groups"

fun star_greedy :: "(char \<Rightarrow> bool) \<Rightarrow> string \<Rightarrow> string list" where
  "star_greedy p [] = [[]]"
| "star_greedy p (c # cs) = (if p c then star_greedy p cs else []) @ [c # cs]"

fun star_lazy :: "(char \<Rightarrow> bool) \<Rightarrow> string \<Rightarrow> string list" where
  "star_lazy p [] = [[]]"
| "star_lazy p (c # cs) = (c # cs) # (if p c then star_lazy p cs else [])"

fun run :: "rx \<Rightarrow> mstate \<Rightarrow> mstate list" where
  "run (Cls p) (s, g) = (case s of [] \<Rightarrow> [] | c # cs \<Rightarrow> if p c then [(cs, g)] else [])"
| "run Eps st = [st]"
| "run (Seq a b) st = concat (map (run b) (run a st))"
| "run (Alt a b) st = run a st @ run b st"
| "run (Star p) (s, g) = map (\<lambda>r. (r, g)) (star_greedy p s)"
| "run (LazyStar p) (s, g) = map (\<lambda>r. (r, g)) (star_lazy p s)"
| "run (Grp n a) (s, g) =
     map (\<lambda>(r, g'). (r, (n, take (length s - length r) s) # g')) (run a (s, g))"
| "run (Look a) st = (if run a st = [] then [] else [st])"
| "run EndZ (s, g) = (if s = [] then [(s, g)] else [])"

text \<open>\<open>m.group(n)\<close> of a match.\<close>

definition group :: "groups \<Rightarrow> nat \<Rightarrow> string" where
  "group g n = (case map_of g n of None \<Rightarrow> [] | Some s \<Rightarrow> s)"

text \<open>\<open>re.match\<close> tries the start of the text only; \<open>re.search\<close> tries every
  position from the left, the end of the text included, and stops at the first that matches.\<close>

definition re_match :: "rx \<Rightarrow> string \<Rightarrow> groups option" where
  "re_match r s = (case run r (s, []) of [] \<Rightarrow> None | (rest, g) # alts \<Rightarrow> Some g)"

fun re_search :: "rx \<Rightarrow> string \<Rightarrow> groups option" where
  "re_search r [] = re_match r []"
| "re_search r (c # cs) =
     (case re_match r (c # cs) of None \<Rightarrow> re_search r cs | Some g \<Rightarrow> Some g)"

text \<open>
  \<open>re.findall\<close> for a pattern with one group: group 1 of every match, left to right,
  the matches not overlapping.  \<open>skip\<close> counts the characters of the last match that are
  still to be stepped over.
\<close>

fun findall_from :: "rx \<Rightarrow> nat \<Rightarrow> string \<Rightarrow> string list" where
  "findall_from r skip [] =
     (if 0 < skip then []
      else case run r ([], []) of [] \<Rightarrow> [] | (rest, g) # alts \<Rightarrow> [group g 1])"
| "findall_from r skip (c # cs) =
     (if 0 < skip then findall_from r (skip - 1) cs
      else case run r (c # cs, []) of
             [] \<Rightarrow> findall_from r 0 cs
           | (rest, g) # alts \<Rightarrow>
               group g 1 # findall_from r (length (c # cs) - length rest - 1) cs)"

definition re_findall :: "rx \<Rightarrow> string \<Rightarrow> string list" where
  "re_findall r s = findall_from r 0 s"

text \<open>\<open>re.split\<close> on a class of single characters.\<close>

fun split_on :: "(char \<Rightarrow> bool) \<Rightarrow> string \<Rightarrow> string list" where
  "split_on p [] = [[]]"
| "split_on p (c # cs) =
     (if p c then [] # split_on p cs
      else case split_on p cs of [] \<Rightarrow> [[c]] | x # xs \<Rightarrow> (c # x) # xs)"

text \<open>Pattern syntax: a letter under \<open>re.I\<close>, a literal word under \<open>re.I\<close>,
  \<open>a?\<close> and \<open>[class]+\<close>.\<close>

definition ilit :: "char \<Rightarrow> rx" where
  "ilit l = Cls (\<lambda>c. lower_char c = lower_char l)"

fun istr :: "string \<Rightarrow> rx" where
  "istr [] = Eps"
| "istr (l # ls) = Seq (ilit l) (istr ls)"

definition Opt :: "rx \<Rightarrow> rx" where
  "Opt a = Alt a Eps"

definition Plus :: "(char \<Rightarrow> bool) \<Rightarrow> rx" where
  "Plus p = Seq (Cls p) (Star p)"

definition newline :: char where
  "newline = CHR 0x0A"

definition is_digit :: "char \<Rightarrow> bool" where
  "is_digit c = (let n = (of_char c :: nat) in 48 \<le> n \<and> n \<le> 57)"

section \<open>Resume parser: the skills section\<close>

text \<open>
  \<^verbatim>\<open>(?i)(skills?|technical\s+skills?|core\s+competenc(?:y|ies)|expertise|proficiencies?)
       [\s:]*\n(.*?)(?=\n\n|\n[A-Z][A-Z\s]+:|\Z)\<close>, searched with \<open>re.DOTALL\<close>.
  The pattern is the header (a synonym, then whitespace and colons up to a newline)
  followed by the body (group 2 and its lookahead).  \<open>(?i)\<close> covers the whole pattern,
  so \<open>[A-Z]\<close> in the lookahead accepts a letter of either case.
\<close>

definition skills_header :: rx where
  "skills_header =
     Seq (Grp 1
            (Alt (Seq (istr ''skill'') (Opt (ilit CHR ''s'')))
            (Alt (Seq (istr ''technical'') (Seq (Plus is_space)
                    (Seq (istr ''skill'') (Opt (ilit CHR ''s'')))))
            (Alt (Seq (istr ''core'') (Seq (Plus is_space)
                    (Seq (istr ''competenc'') (Alt (ilit CHR ''y'') (istr ''ies'')))))
            (Alt (istr ''expertise'')
                 (Seq (istr ''proficiencie'') (Opt (ilit CHR ''s''))))))))
    (Seq (Star (\<lambda>c. is_space c \<or> c = CHR '':''))
         (Cls (\<lambda>c. c = newline)))"

definition skills_body :: rx where
  "skills_body =
     Seq (Grp 2 (LazyStar (\<lambda>c. True)))
         (Look (Alt (Seq (Cls (\<lambda>c. c = newline)) (Cls (\<lambda>c. c = newline)))
               (Alt (Seq (Cls (\<lambda>c. c = newline))
                    (Seq (Cls is_ascii_alpha)
                    (Seq (Plus (\<lambda>c. is_ascii_alpha c \<or> is_space c))
                         (Cls (\<lambda>c. c = CHR '':'')))))
                    EndZ)))"

definition skills_section_pattern :: rx where
  "skills_section_pattern = Seq skills_header skills_body"

text \<open>\<open>[,|\<bullet>\<cdot>\n;]\<close>: of the two glyphs, the middle dot is code point 183.\<close>

definition is_delimiter :: "char \<Rightarrow> bool" where
  "is_delimiter c =
     (c = CHR '','' \<or> c = CHR ''|'' \<or> c = CHR 0xB7 \<or> c = newline \<or> c = CHR '';'')"

text \<open>The characters of \<open>strip('\<bullet>\<cdot>-*...')\<close> that lie in the range.\<close>

definition is_bullet :: "char \<Rightarrow> bool" where
  "is_bullet c = (c = CHR 0xB7 \<or> c = CHR ''-'' \<or> c = CHR ''*'')"

text \<open>\<^verbatim>\<open>^(and|or|the|with|including|such as|etc)$\<close> under \<open>re.I\<close>; \<open>$\<close> also
  matches before a newline that ends the text.\<close>

definition noise_pattern :: rx where
  "noise_pattern =
     Seq (Grp 1
            (Alt (istr ''and'') (Alt (istr ''or'') (Alt (istr ''the'') (Alt (istr ''with'')
            (Alt (istr ''including'') (Alt (istr ''such as'') (istr ''etc''))))))))
         (Look (Alt EndZ (Seq (Cls (\<lambda>c. c = newline)) EndZ)))"

text \<open>
  \<^verbatim>\<open>
  for item in skill_items:
      skill = item.strip().strip('...')
      if skill and 2 <= len(skill) <= 50 and re.search(r'[a-zA-Z]', skill):
          if not re.match(noise, skill, re.I):
              skills.append(skill)
  \<close>
\<close>

fun skills_loop :: "string list \<Rightarrow> string list \<Rightarrow> string list" where
  "skills_loop skills [] = skills"
| "skills_loop skills (item # items) =
     (let skill = strip_set is_bullet (strip item)
      in if skill \<noteq> [] \<and> 2 \<le> length skill \<and> length skill \<le> 50
            \<and> list_ex is_ascii_alpha skill
         then (if re_match noise_pattern skill = None
               then skills_loop (skills @ [skill]) items
               else skills_loop skills items)
         else skills_loop skills items)"

definition extract_skills_from_text :: "string \<Rightarrow> string list" where
  "extract_skills_from_text raw_text =
     (let skills =
        (case re_search skills_section_pattern raw_text of
           None \<Rightarrow> []
         | Some m \<Rightarrow> skills_loop [] (split_on is_delimiter (group m 2)))
      in take 100 skills)"

section \<open>Resume parser: the parsed resume\<close>

text \<open>
  Python values, as far as the parser's input and result need them.  The result is a
  dictionary from field names to values; \<open>d[k]\<close> raises \<open>KeyError\<close> on a missing key.
\<close>

datatype pyval = PyNone | PyInt int | PyStr string | PyList "pyval list"

datatype exn = TypeError | KeyError | ValueError | ConnectionError

type_synonym pydict = "string \<rightharpoonup> pyval"

definition subscript :: "pydict \<Rightarrow> string \<Rightarrow> exn + pyval" where
  "subscript d k = (case d k of None \<Rightarrow> Inl KeyError | Some v \<Rightarrow> Inr v)"

definition str_list :: "string list \<Rightarrow> pyval" where
  "str_list xs = PyList (map PyStr xs)"

text \<open>\<^verbatim>\<open>(B\.Sc|M\.Sc|B\.Tech|M\.Tech|PhD|MBA|Bachelor|Master|Associate)\<close> and
  \<^verbatim>\<open>(\d+\+?\s?years|internship|project|worked at|experience)\<close>, both under \<open>re.I\<close>.\<close>

definition education_pattern :: rx where
  "education_pattern =
     Grp 1 (Alt (istr ''B.Sc'') (Alt (istr ''M.Sc'') (Alt (istr ''B.Tech'')
           (Alt (istr ''M.Tech'') (Alt (istr ''PhD'') (Alt (istr ''MBA'')
           (Alt (istr ''Bachelor'') (Alt (istr ''Master'') (istr ''Associate'')))))))))"

definition experience_pattern :: rx where
  "experience_pattern =
     Grp 1 (Alt (Seq (Plus is_digit) (Seq (Opt (Cls (\<lambda>c. c = CHR ''+'')))
                    (Seq (Opt (Cls is_space)) (istr ''years''))))
           (Alt (istr ''internship'') (Alt (istr ''project'')
           (Alt (istr ''worked at'') (istr ''experience'')))))"

text \<open>
  The heuristics for name, e-mail, phone and location (lines 58 to 90 of the source) each
  give one string and cannot raise on a \<open>str\<close>; no property below looks at their
  values, so they are taken as given functions of the text.
\<close>

record heuristics =
  name_of :: "string \<Rightarrow> string"
  email_of :: "string \<Rightarrow> string"
  phone_of :: "string \<Rightarrow> string"
  location_of :: "string \<Rightarrow> string"

record fields =
  f_name :: string
  f_email :: string
  f_phone :: string
  f_location :: string
  f_skills :: "string list"
  f_education :: "string list"
  f_experience :: "string list"

text \<open>
  The body of the \<open>try\<close> block.  Its first statement hands \<open>raw_text\<close> to
  \<open>re.search\<close>, which raises \<open>TypeError\<close> for anything that is not a string.
\<close>

definition extract_fields :: "heuristics \<Rightarrow> pyval \<Rightarrow> exn + fields" where
  "extract_fields h raw_text =
     (case raw_text of
        PyStr text \<Rightarrow>
          (let skills = extract_skills_from_text text;
               education = re_findall education_pattern text;
               experience = re_findall experience_pattern text
           in Inr \<lparr> f_name = name_of h text, f_email = email_of h text,
                    f_phone = phone_of h text, f_location = location_of h text,
                    f_skills = uniq skills, f_education = uniq education,
                    f_experience = uniq experience \<rparr>)
      | _ \<Rightarrow> Inl TypeError)"

text \<open>
  \<open>parse_resume_to_json\<close>: the dictionary of the \<open>return\<close> at the end of the
  \<open>try\<close> block, or the one of the \<open>except Exception\<close> handler.
\<close>

definition parse_resume_to_json :: "heuristics \<Rightarrow> pyval \<Rightarrow> pydict" where
  "parse_resume_to_json h raw_text =
     (case extract_fields h raw_text of
        Inr f \<Rightarrow>
          [''name'' \<mapsto> PyStr (f_name f), ''email'' \<mapsto> PyStr (f_email f),
           ''phone'' \<mapsto> PyStr (f_phone f), ''location'' \<mapsto> PyStr (f_location f),
           ''skills'' \<mapsto> str_list (f_skills f),
           ''education'' \<mapsto> str_list (f_education f),
           ''experience'' \<mapsto> str_list (f_experience f),
           ''raw_text'' \<mapsto> raw_text]
      | Inl e \<Rightarrow>
          [''skills'' \<mapsto> PyList [], ''education'' \<mapsto> PyList [],
           ''experience'' \<mapsto> PyList [], ''raw_text'' \<mapsto> raw_text])"

section \<open>Job search: numbers, text and dates of the runtime\<close>

text \<open>
  A score starts as the \<open>int\<close> 0 and becomes a \<open>float\<close> once the skill share is
  added, so numbers carry their Python type.  Every float operation rounds its exact
  result; the rounding \<open>fl\<close> is a parameter of the runtime, together with the string
  hash, \<open>str.title\<close> and \<open>datetime.fromisoformat\<close>.
\<close>

datatype pynum = PInt int | PFloat real

datatype dt = Naive int | Aware int

record runtime =
  fl :: "real \<Rightarrow> real"
  str_title :: "string \<Rightarrow> string"
  fromisoformat :: "string \<Rightarrow> exn + dt"

definition to_real :: "pynum \<Rightarrow> real" where
  "to_real x = (case x of PInt a \<Rightarrow> of_int a | PFloat r \<Rightarrow> r)"

text \<open>\<open>x + y\<close>: exact on two ints, a rounded float otherwise.\<close>

definition py_add :: "runtime \<Rightarrow> pynum \<Rightarrow> pynum \<Rightarrow> pynum" where
  "py_add rt x y =
     (case (x, y) of
        (PInt a, PInt b) \<Rightarrow> PInt (a + b)
      | _ \<Rightarrow> PFloat (fl rt (to_real x + to_real y)))"

text \<open>\<open>min(x, y)\<close> gives \<open>y\<close> only when it is strictly smaller.\<close>

definition py_min :: "pynum \<Rightarrow> pynum \<Rightarrow> pynum" where
  "py_min x y = (if to_real y < to_real x then y else x)"

text \<open>\<open>int(x)\<close> truncates a float towards zero.\<close>

definition py_int :: "pynum \<Rightarrow> int" where
  "py_int x = (case x of PInt a \<Rightarrow> a | PFloat r \<Rightarrow> if 0 \<le> r then \<lfloor>r\<rfloor> else \<lceil>r\<rceil>)"

text \<open>\<open>xs[:m]\<close>; a negative \<open>m\<close> counts from the end.\<close>

definition slice_to :: "'a list \<Rightarrow> int \<Rightarrow> 'a list" where
  "slice_to xs m = (if 0 \<le> m then take (nat m) xs else take (length xs - nat (- m)) xs)"

definition join_with :: "string \<Rightarrow> string list \<Rightarrow> string" where
  "join_with sep xs = (case xs of [] \<Rightarrow> [] | y # ys \<Rightarrow> y @ concat (map (\<lambda>z. sep @ z) ys))"

definition digit_char :: "nat \<Rightarrow> char" where
  "digit_char d = char_of (48 + d)"

fun str_of_nat :: "nat \<Rightarrow> string" where
  "str_of_nat n = (if n < 10 then [digit_char n] else str_of_nat (n div 10) @ [digit_char (n mod 10)])"

text \<open>The format \<open>{n:,}\<close>: decimal digits in groups of three.\<close>

fun commas_rev :: "string \<Rightarrow> string" where
  "commas_rev (a # b # c # d # rest) = a # b # c # CHR '','' # commas_rev (d # rest)"
| "commas_rev xs = xs"

definition fmt_commas :: "int \<Rightarrow> string" where
  "fmt_commas n =
     (if n < 0 then CHR ''-'' # rev (commas_rev (rev (str_of_nat (nat (- n)))))
      else rev (commas_rev (rev (str_of_nat (nat n)))))"

text \<open>
  \<open>datetime.strptime(s, '%Y-%m-%d')\<close>: the pattern the library builds for the format
  is \<^verbatim>\<open>(\d\d\d\d)-(1[0-2]|0[1-9]|[1-9])-(3[0-1]|[1-2]\d|0[1-9]|[1-9]| [1-9])\<close>; text left
  over after the match, a year 0 or a day the month does not have is a \<open>ValueError\<close>.
  A naive datetime is counted in microseconds from 0001-01-01 00:00.
\<close>

definition in_range :: "char \<Rightarrow> char \<Rightarrow> char \<Rightarrow> bool" where
  "in_range lo hi c = ((of_char lo :: nat) \<le> of_char c \<and> (of_char c :: nat) \<le> of_char hi)"

definition year_rx :: rx where
  "year_rx = Seq (Cls is_digit) (Seq (Cls is_digit) (Seq (Cls is_digit) (Cls is_digit)))"

definition month_rx :: rx where
  "month_rx =
     Alt (Seq (Cls (\<lambda>c. c = CHR ''1'')) (Cls (in_range CHR ''0'' CHR ''2'')))
    (Alt (Seq (Cls (\<lambda>c. c = CHR ''0'')) (Cls (in_range CHR ''1'' CHR ''9'')))
         (Cls (in_range CHR ''1'' CHR ''9'')))"

definition day_rx :: rx where
  "day_rx =
     Alt (Seq (Cls (\<lambda>c. c = CHR ''3'')) (Cls (in_range CHR ''0'' CHR ''1'')))
    (Alt (Seq (Cls (in_range CHR ''1'' CHR ''2'')) (Cls is_digit))
    (Alt (Seq (Cls (\<lambda>c. c = CHR ''0'')) (Cls (in_range CHR ''1'' CHR ''9'')))
    (Alt (Cls (in_range CHR ''1'' CHR ''9''))
         (Seq (Cls (\<lambda>c. c = CHR '' '')) (Cls (in_range CHR ''1'' CHR ''9''))))))"

definition ymd_pattern :: rx where
  "ymd_pattern =
     Seq (Grp 1 year_rx)
    (Seq (Cls (\<lambda>c. c = CHR ''-''))
    (Seq (Grp 2 month_rx)
    (Seq (Cls (\<lambda>c. c = CHR ''-''))
         (Grp 3 day_rx))))"

definition int_of_digits :: "string \<Rightarrow> int" where
  "int_of_digits s =
     foldl (\<lambda>acc c. 10 * acc + (int (of_char c) - 48)) 0 (filter is_digit s)"

definition is_leap :: "int \<Rightarrow> bool" where
  "is_leap y = (y mod 4 = 0 \<and> (y mod 100 \<noteq> 0 \<or> y mod 400 = 0))"

definition days_in_month :: "int \<Rightarrow> int \<Rightarrow> int" where
  "days_in_month y m =
     (if m = 2 then (if is_leap y then 29 else 28)
      else if m = 4 \<or> m = 6 \<or> m = 9 \<or> m = 11 then 30 else 31)"

definition days_before_year :: "int \<Rightarrow> int" where
  "days_before_year y = (y - 1) * 365 + (y - 1) div 4 - (y - 1) div 100 + (y - 1) div 400"

definition days_before_month :: "int \<Rightarrow> int \<Rightarrow> int" where
  "days_before_month y m = sum_list (map (days_in_month y) [1 .. m - 1])"

definition ymd_to_ordinal :: "int \<Rightarrow> int \<Rightarrow> int \<Rightarrow> int" where
  "ymd_to_ordinal y m d = days_before_year y + days_before_month y m + d"

definition microseconds_per_day :: int where
  "microseconds_per_day = 86400000000"

definition midnight :: "int \<Rightarrow> int \<Rightarrow> int \<Rightarrow> int" where
  "midnight y m d = (ymd_to_ordinal y m d - 1) * microseconds_per_day"

definition strptime_ymd :: "string \<Rightarrow> exn + dt" where
  "strptime_ymd s =
     (case run ymd_pattern (s, []) of
        [] \<Rightarrow> Inl ValueError
      | (rest, g) # alts \<Rightarrow>
          if rest \<noteq> [] then Inl ValueError
          else (let y = int_of_digits (group g 1);
                    m = int_of_digits (group g 2);
                    d = int_of_digits (group g 3)
                in if y < 1 \<or> days_in_month y m < d then Inl ValueError
                   else Inr (Naive (midnight y m d))))"

definition replace_Z :: "string \<Rightarrow> string" where
  "replace_Z s = concat (map (\<lambda>c. if c = CHR ''Z'' then ''+00:00'' else [c]) s)"

section \<open>Job search: listings, queries and the service state\<close>

text \<open>
  A listing is a dictionary with fixed keys; \<open>match_score\<close> and \<open>matched_skills\<close>
  are missing until the scores are computed.  \<open>parsed_resume\<close> and \<open>search_query\<close>
  are read with \<open>.get(key, default)\<close> only, so a missing key is its default.
\<close>

record job =
  title :: string
  company :: string
  location :: string
  description :: string
  url :: string
  salary :: string
  remote :: bool
  hybrid :: bool
  days_ago :: int
  source :: string
  match_score :: "int option"
  matched_skills :: "string list option"

record resume =
  skills :: "string list"
  experience :: "string list"
  r_location :: string

record search_query =
  q_keywords :: string
  q_location :: string
  q_experience_level :: string

text \<open>What the two providers are asked, and the records of their JSON answers.\<close>

record adzuna_request =
  results_per_page :: int
  what :: string
  where_ :: string
  category :: "string option"

record adzuna_record =
  a_title :: string
  a_company :: string
  a_location :: string
  a_description :: string
  a_redirect_url :: string
  a_salary_min :: "int option"
  a_salary_max :: "int option"
  a_created :: "string option"

record jsearch_request =
  query :: string
  jq_location :: "string option"

record jsearch_record =
  job_title :: string
  employer_name :: string
  job_location :: string
  job_description :: string
  job_apply_link :: string
  job_salary_min :: "int option"
  job_salary_max :: "int option"
  job_is_remote :: bool
  job_posted_at_datetime_utc :: "string option"

text \<open>
  What one call of \<open>search_jobs\<close> meets outside the program: the readings of
  \<open>time.time()\<close> at the cache check, in the two rate-limit checks and at the cache
  write, the reading of \<open>datetime.now()\<close>, and the answer of each provider to a request
  (\<open>None\<close> when the request, its status check or the JSON decoding raises).
\<close>

record env =
  clock_check :: real
  clock_adzuna :: real
  clock_rapidapi :: real
  clock_store :: real
  now_local :: int
  adzuna_api :: "adzuna_request \<Rightarrow> adzuna_record list option"
  rapidapi_api :: "jsearch_request \<Rightarrow> jsearch_record list option"

datatype event = AdzunaGet adzuna_request | RapidGet jsearch_request

datatype provider = Adzuna | RapidAPI

record rate_info =
  calls :: int
  reset_time :: real

text \<open>
  The service object.  The cache key is the text \<open>f"{hash(str(search_query))}_{max_results}"\<close>,
  which is the pair of the two numbers; the hash of a query is fixed for the life of the
  process.
\<close>

record service =
  cache :: "(int \<times> int) \<rightharpoonup> (job list \<times> real)"
  cache_duration :: real
  adzuna_limit :: rate_info
  rapidapi_limit :: rate_info
  has_adzuna :: bool
  has_rapidapi :: bool
  query_hash :: "search_query \<Rightarrow> int"

definition init_service :: "runtime \<Rightarrow> real \<Rightarrow> bool \<Rightarrow> bool \<Rightarrow> (search_query \<Rightarrow> int) \<Rightarrow> service" where
  "init_service rt t adzuna_keys rapidapi_key h =
     \<lparr> cache = Map.empty, cache_duration = 3600,
       adzuna_limit = \<lparr> calls = 0, reset_time = fl rt (t + 3600) \<rparr>,
       rapidapi_limit = \<lparr> calls = 0, reset_time = fl rt (t + 3600) \<rparr>,
       has_adzuna = adzuna_keys, has_rapidapi = rapidapi_key, query_hash = h \<rparr>"

section \<open>Job search: rate limits and providers\<close>

definition rate_of :: "provider \<Rightarrow> service \<Rightarrow> rate_info" where
  "rate_of api st = (case api of Adzuna \<Rightarrow> adzuna_limit st | RapidAPI \<Rightarrow> rapidapi_limit st)"

definition set_rate :: "provider \<Rightarrow> rate_info \<Rightarrow> service \<Rightarrow> service" where
  "set_rate api ri st =
     (case api of Adzuna \<Rightarrow> st\<lparr>adzuna_limit := ri\<rparr> | RapidAPI \<Rightarrow> st\<lparr>rapidapi_limit := ri\<rparr>)"

text \<open>
  \<^verbatim>\<open>
  if current_time > rate_info['reset_time']:
      rate_info['calls'] = 0
      rate_info['reset_time'] = current_time + 3600
  if api == 'adzuna':     return rate_info['calls'] >= 100
  elif api == 'rapidapi': return rate_info['calls'] >= 50
  \<close>
  The check may write the counters, so it gives the new service state as well.
\<close>

definition is_rate_limited :: "runtime \<Rightarrow> provider \<Rightarrow> real \<Rightarrow> service \<Rightarrow> bool \<times> service" where
  "is_rate_limited rt api current_time st =
     (let rate_info = rate_of api st;
          rate_info' = (if reset_time rate_info < current_time
                        then \<lparr> calls = 0, reset_time = fl rt (current_time + 3600) \<rparr>
                        else rate_info)
      in (case api of Adzuna \<Rightarrow> 100 \<le> calls rate_info' | RapidAPI \<Rightarrow> 50 \<le> calls rate_info',
          set_rate api rate_info' st))"

definition map_experience_to_adzuna :: "string \<Rightarrow> string" where
  "map_experience_to_adzuna level =
     (if level = ''Entry Level'' then ''entry-level''
      else if level = ''Mid Level'' then ''mid-level''
      else if level = ''Senior Level'' then ''senior-level''
      else if level = ''Executive'' then ''executive''
      else [])"

text \<open>\<open>not min_sal\<close> holds for \<open>None\<close> and for 0.\<close>

definition truthy :: "int option \<Rightarrow> bool" where
  "truthy v = (case v of None \<Rightarrow> False | Some n \<Rightarrow> n \<noteq> 0)"

definition amount :: "int option \<Rightarrow> string" where
  "amount v = (case v of None \<Rightarrow> [] | Some n \<Rightarrow> CHR ''$'' # fmt_commas n)"

definition format_salary :: "int option \<Rightarrow> int option \<Rightarrow> string" where
  "format_salary min_sal max_sal =
     (if \<not> truthy min_sal \<and> \<not> truthy max_sal then ''Not specified''
      else if truthy min_sal \<and> truthy max_sal then amount min_sal @ '' - '' @ amount max_sal
      else if truthy min_sal then amount min_sal @ ''+''
      else ''Up to '' @ amount max_sal)"

text \<open>
  \<^verbatim>\<open>
  if not date_str: return 0
  try:
      if 'T' in date_str: job_date = datetime.fromisoformat(date_str.replace('Z', '+00:00'))
      else:               job_date = datetime.strptime(date_str, '%Y-%m-%d')
      return (datetime.now() - job_date).days
  except: return 0
  \<close>
  \<open>datetime.now()\<close> is naive; subtracting an aware datetime from it raises
  \<open>TypeError\<close>, which the handler turns into 0.  The \<open>days\<close> of a time difference
  are its microseconds divided by those of a day, rounded down.
\<close>

definition calculate_days_ago :: "runtime \<Rightarrow> int \<Rightarrow> string option \<Rightarrow> int" where
  "calculate_days_ago rt now date_str =
     (case date_str of
        None \<Rightarrow> 0
      | Some s \<Rightarrow>
          if s = [] then 0
          else (case (if CHR ''T'' \<in> set s then fromisoformat rt (replace_Z s)
                      else strptime_ymd s) of
                  Inl e \<Rightarrow> 0
                | Inr (Aware t) \<Rightarrow> 0
                | Inr (Naive t) \<Rightarrow> (now - t) div microseconds_per_day))"

definition adzuna_job :: "runtime \<Rightarrow> int \<Rightarrow> adzuna_record \<Rightarrow> job" where
  "adzuna_job rt now r =
     \<lparr> title = a_title r, company = a_company r, location = a_location r,
       description = a_description r, url = a_redirect_url r,
       salary = format_salary (a_salary_min r) (a_salary_max r),
       remote = contains ''remote'' (lower (a_description r)),
       hybrid = contains ''hybrid'' (lower (a_description r)),
       days_ago = calculate_days_ago rt now (a_created r),
       source = ''Adzuna'', match_score = None, matched_skills = None \<rparr>"

definition jsearch_job :: "runtime \<Rightarrow> int \<Rightarrow> jsearch_record \<Rightarrow> job" where
  "jsearch_job rt now r =
     \<lparr> title = job_title r, company = employer_name r, location = job_location r,
       description = job_description r, url = job_apply_link r,
       salary = format_salary (job_salary_min r) (job_salary_max r),
       remote = job_is_remote r,
       hybrid = contains ''hybrid'' (lower (job_description r)),
       days_ago = calculate_days_ago rt now (job_posted_at_datetime_utc r),
       source = ''JSearch'', match_score = None, matched_skills = None \<rparr>"

definition bump :: "rate_info \<Rightarrow> rate_info" where
  "bump ri = ri\<lparr>calls := calls ri + 1\<rparr>"

text \<open>
  \<open>_search_adzuna\<close> and \<open>_search_rapidapi\<close> give the listings, the new service state
  and the requests sent.  The counter goes up only after the answer has been decoded.
\<close>

definition search_adzuna ::
  "runtime \<Rightarrow> env \<Rightarrow> service \<Rightarrow> search_query \<Rightarrow> int \<Rightarrow> job list \<times> service \<times> event list" where
  "search_adzuna rt e st search_query max_results =
     (if \<not> has_adzuna st then ([], st, [])
      else case is_rate_limited rt Adzuna (clock_adzuna e) st of
        (limited, st1) \<Rightarrow>
          if limited then ([], st1, [])
          else (let params =
                      \<lparr> results_per_page = min max_results 50,
                        what = q_keywords search_query,
                        where_ = q_location search_query,
                        category =
                          (if q_experience_level search_query \<noteq> []
                           then Some (map_experience_to_adzuna (q_experience_level search_query))
                           else None) \<rparr>
                in case adzuna_api e params of
                     None \<Rightarrow> ([], st1, [AdzunaGet params])
                   | Some results \<Rightarrow>
                       (map (adzuna_job rt (now_local e)) results,
                        st1\<lparr>adzuna_limit := bump (adzuna_limit st1)\<rparr>,
                        [AdzunaGet params])))"

definition search_rapidapi ::
  "runtime \<Rightarrow> env \<Rightarrow> service \<Rightarrow> search_query \<Rightarrow> int \<Rightarrow> job list \<times> service \<times> event list" where
  "search_rapidapi rt e st search_query max_results =
     (if \<not> has_rapidapi st then ([], st, [])
      else case is_rate_limited rt RapidAPI (clock_rapidapi e) st of
        (limited, st1) \<Rightarrow>
          if limited then ([], st1, [])
          else (let params =
                      \<lparr> query = q_keywords search_query,
                        jq_location =
                          (if q_location search_query \<noteq> []
                           then Some (q_location search_query) else None) \<rparr>
                in case rapidapi_api e params of
                     None \<Rightarrow> ([], st1, [RapidGet params])
                   | Some results \<Rightarrow>
                       (map (jsearch_job rt (now_local e)) results,
                        st1\<lparr>rapidapi_limit := bump (rapidapi_limit st1)\<rparr>,
                        [RapidGet params])))"

section \<open>Job search: synthetic listings\<close>

definition job_templates :: "runtime \<Rightarrow> string \<Rightarrow> string \<Rightarrow> job list" where
  "job_templates rt keywords loc =
     [ \<lparr> title = ''Senior '' @ (if keywords \<noteq> [] then str_title rt keywords else ''Software Engineer''),
         company = ''TechCorp Inc.'',
         location = (if loc \<noteq> [] then str_title rt loc else ''San Francisco, CA''),
         description = ''Join our team as a Senior ''
            @ (if keywords \<noteq> [] then str_title rt keywords else ''Software Engineer'')
            @ ''. We'' @ [CHR 0x27] @ ''re looking for passionate developers to build innovative solutions.'',
         url = [], salary = ''$120,000 - $150,000'', remote = True, hybrid = False,
         days_ago = 0, source = [], match_score = None, matched_skills = None \<rparr>,
       \<lparr> title = (if keywords \<noteq> [] then str_title rt keywords else ''Software Engineer'') @ '' - Remote'',
         company = ''StartupXYZ'',
         location = ''Remote'',
         description = ''Fully remote position for a ''
            @ (if keywords \<noteq> [] then str_title rt keywords else ''Software Engineer'')
            @ ''. Work with cutting-edge technologies.'',
         url = [], salary = ''$90,000 - $130,000'', remote = True, hybrid = False,
         days_ago = 0, source = [], match_score = None, matched_skills = None \<rparr>,
       \<lparr> title = ''Lead '' @ (if keywords \<noteq> [] then str_title rt keywords else ''Developer''),
         company = ''Enterprise Solutions'',
         location = (if loc \<noteq> [] then str_title rt loc else ''New York, NY''),
         description = ''Lead a team of ''
            @ (if keywords \<noteq> [] then str_title rt keywords else ''developers'')
            @ '' in building scalable applications.'',
         url = [], salary = ''$140,000 - $180,000'', remote = False, hybrid = True,
         days_ago = 0, source = [], match_score = None, matched_skills = None \<rparr> ]"

text \<open>
  \<^verbatim>\<open>
  for i in range(max_results):
      template = job_templates[i % len(job_templates)]
      job = template.copy()
      job.update({'title': f"{job['title']} {i+1}" if i > 2 else job['title'],
                  'company': f"{job['company']} {i+1}" if i > 2 else job['company'],
                  'url': f"https://example.com/job/{i+1}",
                  'days_ago': i % 7, 'source': 'Mock Data'})
  \<close>
  The templates have neither \<open>url\<close>, \<open>days_ago\<close> nor \<open>source\<close>; the update sets them.
\<close>

definition mock_job :: "job list \<Rightarrow> nat \<Rightarrow> job" where
  "mock_job templates i =
     (let job = templates ! (i mod length templates)
      in job\<lparr> title := (if 2 < i then title job @ '' '' @ str_of_nat (i + 1) else title job),
              company := (if 2 < i then company job @ '' '' @ str_of_nat (i + 1) else company job),
              url := ''https://example.com/job/'' @ str_of_nat (i + 1),
              days_ago := int (i mod 7),
              source := ''Mock Data'' \<rparr>)"

definition generate_enhanced_mock_jobs :: "runtime \<Rightarrow> search_query \<Rightarrow> int \<Rightarrow> resume \<Rightarrow> job list" where
  "generate_enhanced_mock_jobs rt search_query max_results parsed_resume =
     (let keywords = lower (q_keywords search_query);
          loc = lower (q_location search_query)
      in map (mock_job (job_templates rt keywords loc)) [0 ..< nat max_results])"

section \<open>Job search: the match score\<close>

definition py_truediv :: "runtime \<Rightarrow> nat \<Rightarrow> nat \<Rightarrow> pynum" where
  "py_truediv rt a b = PFloat (fl rt (real a / real b))"

definition py_mul :: "runtime \<Rightarrow> pynum \<Rightarrow> pynum \<Rightarrow> pynum" where
  "py_mul rt x y =
     (case (x, y) of
        (PInt a, PInt b) \<Rightarrow> PInt (a * b)
      | _ \<Rightarrow> PFloat (fl rt (to_real x * to_real y)))"

definition seniority_keywords :: "string list" where
  "seniority_keywords = [''senior'', ''lead'', ''principal'']"

definition company_keywords :: "string list" where
  "company_keywords = [''startup'', ''tech'', ''software'']"

text \<open>The four blocks of the loop body, each taking the score so far to the new score.\<close>

definition skills_step :: "runtime \<Rightarrow> string list \<Rightarrow> string list \<Rightarrow> pynum \<Rightarrow> pynum" where
  "skills_step rt resume_skills matched score =
     (if resume_skills \<noteq> []
      then (let skill_score =
                  py_mul rt (py_truediv rt (length matched) (length resume_skills)) (PInt 40)
            in py_add rt score (py_min skill_score (PInt 40)))
      else score)"

definition seniority_step :: "runtime \<Rightarrow> string \<Rightarrow> string list \<Rightarrow> pynum \<Rightarrow> pynum" where
  "seniority_step rt job_text resume_experience score =
     (if list_ex (\<lambda>exp. contains exp job_text) seniority_keywords
      then (if list_ex (\<lambda>exp. contains exp (lower (join_with '' '' resume_experience)))
                 seniority_keywords
            then py_add rt score (PInt 30)
            else score)
      else py_add rt score (PInt 20))"

definition location_step :: "runtime \<Rightarrow> resume \<Rightarrow> job \<Rightarrow> pynum \<Rightarrow> pynum" where
  "location_step rt parsed_resume job score =
     (if remote job then py_add rt score (PInt 20)
      else if contains (lower (r_location parsed_resume)) (lower (location job))
      then py_add rt score (PInt 20)
      else score)"

definition company_step :: "runtime \<Rightarrow> job \<Rightarrow> pynum \<Rightarrow> pynum" where
  "company_step rt job score =
     (if list_ex (\<lambda>keyword. contains keyword (lower (company job))) company_keywords
      then py_add rt score (PInt 10)
      else score)"

definition job_text_of :: "job \<Rightarrow> string" where
  "job_text_of job = lower (title job @ '' '' @ description job)"

definition score_job :: "runtime \<Rightarrow> resume \<Rightarrow> job \<Rightarrow> job" where
  "score_job rt parsed_resume job =
     (let resume_skills = map lower (skills parsed_resume);
          resume_experience = experience parsed_resume;
          job_text = job_text_of job;
          matched = filter (\<lambda>skill. contains skill job_text) resume_skills;
          score = skills_step rt resume_skills matched (PInt 0);
          score = seniority_step rt job_text resume_experience score;
          score = location_step rt parsed_resume job score;
          score = company_step rt job score
      in job\<lparr> match_score := Some (min (py_int score) 100),
              matched_skills := Some (take 5 matched) \<rparr>)"

definition calculate_match_scores :: "runtime \<Rightarrow> job list \<Rightarrow> resume \<Rightarrow> job list" where
  "calculate_match_scores rt jobs parsed_resume = map (score_job rt parsed_resume) jobs"

section \<open>Job search: the search operation\<close>

definition cache_lookup :: "service \<Rightarrow> (int \<times> int) \<Rightarrow> runtime \<Rightarrow> env \<Rightarrow> job list option" where
  "cache_lookup st cache_key rt e =
     (case cache st cache_key of
        None \<Rightarrow> None
      | Some (cached_data, timestamp) \<Rightarrow>
          if fl rt (clock_check e - timestamp) < cache_duration st then Some cached_data
          else None)"

text \<open>
  \<open>search_jobs\<close> gives the listings returned, the new service state and the requests
  sent.  The two \<open>try\<close> blocks around the provider calls guard functions that catch
  every exception themselves.
\<close>

definition search_jobs ::
  "runtime \<Rightarrow> env \<Rightarrow> service \<Rightarrow> resume \<Rightarrow> search_query \<Rightarrow> int
     \<Rightarrow> job list \<times> service \<times> event list" where
  "search_jobs rt e st parsed_resume search_query max_results =
     (let cache_key = (query_hash st search_query, max_results)
      in case cache_lookup st cache_key rt e of
           Some cached_data \<Rightarrow> (cached_data, st, [])
         | None \<Rightarrow>
            (let jobs = [];
                 (jobs1, st1, ev1) =
                    (if has_adzuna st \<and> int (length jobs) < max_results
                     then (case search_adzuna rt e st search_query (max_results - int (length jobs)) of
                             (adzuna_jobs, st', ev) \<Rightarrow> (jobs @ adzuna_jobs, st', ev))
                     else (jobs, st, []));
                 (jobs2, st2, ev2) =
                    (if has_rapidapi st1 \<and> int (length jobs1) < max_results
                     then (case search_rapidapi rt e st1 search_query (max_results - int (length jobs1)) of
                             (rapidapi_jobs, st', ev) \<Rightarrow> (jobs1 @ rapidapi_jobs, st', ev))
                     else (jobs1, st1, []));
                 jobs3 = (if jobs2 = []
                          then generate_enhanced_mock_jobs rt search_query max_results parsed_resume
                          else jobs2);
                 jobs4 = calculate_match_scores rt jobs3 parsed_resume;
                 st3 = st2\<lparr>cache := (cache st2)(cache_key \<mapsto> (jobs4, clock_store e))\<rparr>
             in (slice_to jobs4 max_results, st3, ev1 @ ev2)))"

text \<open>
  The wrapper of \<open>job_scraper.py\<close>: whatever the service raises becomes one fixed
  listing.
\<close>

definition fallback_job :: job where
  "fallback_job =
     \<lparr> title = ''Software Engineer'', company = ''Tech Company'', location = ''Remote'',
       description = ''Software engineering position'', url = ''#'',
       salary = ''Not specified'', remote = True, hybrid = False, days_ago = 1,
       source = ''Fallback'', match_score = Some 50, matched_skills = None \<rparr>"

definition scraper_search_jobs :: "exn + job list \<Rightarrow> job list" where
  "scraper_search_jobs outcome = (case outcome of Inl e \<Rightarrow> [fallback_job] | Inr jobs \<Rightarrow> jobs)"

section \<open>Resume parser: what the properties speak of\<close>

text \<open>
  A text has a skills-section header where the header part of the pattern matches at some
  position.
\<close>

fun has_skills_header :: "string \<Rightarrow> bool" where
  "has_skills_header [] = (run skills_header ([], []) \<noteq> [])"
| "has_skills_header (c # cs) = (run skills_header (c # cs, []) \<noteq> [] \<or> has_skills_header cs)"







text \<open>Heuristics that find nothing, for running the parser on an example.\<close>

definition blank_heuristics :: heuristics where
  "blank_heuristics =
     \<lparr> name_of = (\<lambda>s. []), email_of = (\<lambda>s. []), phone_of = (\<lambda>s. []),
       location_of = (\<lambda>s. []) \<rparr>"

section \<open>Properties of the string primitives\<close>

lemma dropWhile_rev_dropWhile:
  "dropWhile p (rev (dropWhile p (rev ys))) = rev (dropWhile p (rev (dropWhile p ys)))"
proof (induction ys)
  case Nil
  show ?case by simp
next
  case (Cons y ys)
  show ?case
  proof (cases "p y")
    case True
    have "dropWhile p (rev ys @ [y]) = (if \<forall>z\<in>set ys. p z then [] else dropWhile p (rev ys) @ [y])"
      using True by (simp add: dropWhile_append)
    then show ?thesis
      using True Cons.IH
      by (auto simp: dropWhile_append dropWhile_eq_Nil_conv dest: set_dropWhileD)
  next
    case False
    have ne: "dropWhile p (rev ys @ [y]) = dropWhile p (rev ys) @ [y]"
      using False by (simp add: dropWhile_append)
    have "rev (dropWhile p (rev ys) @ [y]) = y # rev (dropWhile p (rev ys))"
      by simp
    then show ?thesis
      using False ne by simp
  qed
qed

lemma strip_set_idem: "strip_set p (strip_set p s) = strip_set p s"
proof -
  let ?d = "dropWhile p s"
  have "dropWhile p (rev (dropWhile p (rev ?d))) = rev (dropWhile p (rev (dropWhile p ?d)))"
    by (rule dropWhile_rev_dropWhile)
  then have a: "dropWhile p (rev (dropWhile p (rev ?d))) = rev (dropWhile p (rev ?d))"
    by (simp add: dropWhile_idem)
  show ?thesis
    unfolding strip_set_def
    by (simp add: a dropWhile_idem)
qed

lemma strip_idem: "strip (strip s) = strip s"
  by (simp add: strip_def strip_set_idem)


section \<open>Deduplication is idempotent\<close>

lemma uniq_loop_idem: "uniq_loop seen (uniq_loop seen xs) = uniq_loop seen xs"
proof (induction xs arbitrary: seen)
  case Nil
  show ?case by simp
next
  case (Cons x xs)
  show ?case
  proof (cases "lower (strip x) \<noteq> [] \<and> lower (strip x) \<notin> seen")
    case True
    then show ?thesis
      using Cons.IH [of "insert (lower (strip x)) seen"]
      by (simp add: Let_def strip_idem)
  next
    case False
    then show ?thesis
      using Cons.IH [of seen] by (auto simp: Let_def)
  qed
qed

text \<open>
  C8.  The dedupe operation (\<open>uniq\<close>) is idempotent: for every sequence of strings,
  deduplicating the deduplicated sequence gives the deduplicated sequence again.
\<close>

theorem uniq_idempotent: "uniq (uniq seq) = uniq seq"
  by (simp add: uniq_def uniq_loop_idem)

section \<open>Resume parser: the skills section and the parsed resume\<close>

lemma star_lazy_end: "[] \<in> set (star_lazy p s) \<or> (\<exists>c \<in> set s. \<not> p c)"
  by (induction s) auto

lemma seq_nonempty: "st' \<in> set (run a st) \<Longrightarrow> run b st' \<noteq> [] \<Longrightarrow> run (Seq a b) st \<noteq> []"
  by auto

lemma look_at_end: "run (Look (Alt a (Alt b EndZ))) ([], g) \<noteq> []"
  by simp

lemma run_skills_body_nonempty: "run skills_body (s, g) \<noteq> []"
proof -
  have "[] \<in> set (star_lazy (\<lambda>c. True) s)"
    using star_lazy_end [of "\<lambda>c. True" s] by simp
  then have "([], g) \<in> set (run (LazyStar (\<lambda>c. True)) (s, g))"
    by (simp add: image_iff)
  then have "([], (2, s) # g) \<in> set (run (Grp 2 (LazyStar (\<lambda>c. True))) (s, g))"
    by (simp only: run.simps set_map image_iff) force
  then show ?thesis
    unfolding skills_body_def
    by (rule seq_nonempty) (rule look_at_end)
qed

lemma re_match_section:
  "re_match skills_section_pattern s = None \<longleftrightarrow> run skills_header (s, []) = []"
proof -
  have "run skills_section_pattern (s, []) = [] \<longleftrightarrow> run skills_header (s, []) = []"
    using run_skills_body_nonempty
    by (cases "run skills_header (s, [])") (auto simp: skills_section_pattern_def)
  then show ?thesis
    by (auto simp: re_match_def split: list.splits)
qed

lemma re_search_section:
  "re_search skills_section_pattern s = None \<longleftrightarrow> \<not> has_skills_header s"
proof (induction s)
  case Nil
  show ?case by (simp add: re_match_section)
next
  case (Cons c cs)
  show ?case
  proof (cases "run skills_header (c # cs, []) = []")
    case True
    then have "re_match skills_section_pattern (c # cs) = None"
      by (simp add: re_match_section)
    then show ?thesis using True Cons by simp
  next
    case False
    then have "re_match skills_section_pattern (c # cs) \<noteq> None"
      by (simp add: re_match_section)
    then show ?thesis using False by (auto split: option.splits)
  qed
qed

text \<open>
  C2.  For every resume text with no skills-section header, the extracted skills are the
  empty sequence, whatever else the text holds: nothing is inferred from keywords that
  appear outside a skills section.
\<close>

theorem no_header_no_skills:
  "\<not> has_skills_header raw_text \<Longrightarrow>
     extract_skills_from_text raw_text = []
     \<and> parse_resume_to_json h (PyStr raw_text) ''skills'' = Some (PyList [])"
proof -
  assume "\<not> has_skills_header raw_text"
  then have "re_search skills_section_pattern raw_text = None"
    by (simp add: re_search_section)
  then have e: "extract_skills_from_text raw_text = []"
    by (simp add: extract_skills_from_text_def)
  then show ?thesis
    by (simp add: parse_resume_to_json_def extract_fields_def uniq_def str_list_def)
qed

lemma lower_char_Char:
  "lower_char (Char b0 b1 b2 b3 b4 b5 b6 b7) =
     (if \<not> b5 \<and> b6 \<and> (\<not> b7 \<and> (b0 \<or> b1 \<or> b2 \<or> b3 \<or> b4) \<and> \<not> (b4 \<and> b3 \<and> (b2 \<or> b1 \<and> b0))
                      \<or> b7 \<and> \<not> (b0 \<and> b1 \<and> b2 \<and> \<not> b3 \<and> b4) \<and> \<not> (b0 \<and> b1 \<and> b2 \<and> b3 \<and> b4))
      then Char b0 b1 b2 b3 b4 True b6 b7 else Char b0 b1 b2 b3 b4 b5 b6 b7)"
  by (cases b0; cases b1; cases b2; cases b3; cases b4; cases b5; cases b6; cases b7;
      simp add: lower_char_def char_of_def bit_0)

lemmas pattern_eval =
  skills_header_def skills_body_def skills_section_pattern_def noise_pattern_def
  Opt_def Plus_def ilit_def newline_def is_space_def is_ascii_alpha_def is_digit_def
  lower_char_Char re_match_def group_def


lemma no_header_example: "\<not> has_skills_header ''Python, SQL, Docker''"
  by (simp add: pattern_eval)

theorem no_header_no_skills_witness:
  "\<not> has_skills_header ''Python, SQL, Docker''
   \<and> extract_skills_from_text ''Python, SQL, Docker'' = []
   \<and> parse_resume_to_json blank_heuristics (PyStr ''Python, SQL, Docker'') ''skills''
       = Some (PyList [])"
  using no_header_no_skills [of "''Python, SQL, Docker''" blank_heuristics] no_header_example
  by simp

text \<open>
  C7.  When the extraction raises, \<open>parse_resume_to_json\<close> does not pass the exception
  on: it returns a dictionary in which \<open>skills\<close>, \<open>education\<close> and \<open>experience\<close>
  are empty and \<open>raw_text\<close> is the input it was given.
\<close>

theorem parse_error_path:
  "extract_fields h raw_text = Inl e \<Longrightarrow>
     parse_resume_to_json h raw_text ''skills'' = Some (PyList [])
     \<and> parse_resume_to_json h raw_text ''education'' = Some (PyList [])
     \<and> parse_resume_to_json h raw_text ''experience'' = Some (PyList [])
     \<and> parse_resume_to_json h raw_text ''raw_text'' = Some raw_text"
  by (simp add: parse_resume_to_json_def)

theorem parse_error_path_witness:
  "extract_fields blank_heuristics PyNone = Inl TypeError
   \<and> parse_resume_to_json blank_heuristics PyNone ''skills'' = Some (PyList [])
   \<and> parse_resume_to_json blank_heuristics PyNone ''education'' = Some (PyList [])
   \<and> parse_resume_to_json blank_heuristics PyNone ''experience'' = Some (PyList [])
   \<and> parse_resume_to_json blank_heuristics PyNone ''raw_text'' = Some PyNone"
proof -
  have e: "extract_fields blank_heuristics PyNone = Inl TypeError"
    by (simp add: extract_fields_def)
  show ?thesis
    using e parse_error_path [OF e] by simp
qed

text \<open>
  C10.  On the error path the returned dictionary has exactly the keys \<open>skills\<close>,
  \<open>education\<close>, \<open>experience\<close> and \<open>raw_text\<close>; \<open>name\<close>, \<open>email\<close>,
  \<open>phone\<close> and \<open>location\<close> are missing, so subscripting the result with one of them
  raises \<open>KeyError\<close> instead of giving an empty string.
\<close>

theorem parse_error_keys:
  "extract_fields h raw_text = Inl e \<Longrightarrow>
     dom (parse_resume_to_json h raw_text) = {''skills'', ''education'', ''experience'', ''raw_text''}
     \<and> subscript (parse_resume_to_json h raw_text) ''name'' = Inl KeyError
     \<and> subscript (parse_resume_to_json h raw_text) ''email'' = Inl KeyError
     \<and> subscript (parse_resume_to_json h raw_text) ''phone'' = Inl KeyError
     \<and> subscript (parse_resume_to_json h raw_text) ''location'' = Inl KeyError"
  by (auto simp: parse_resume_to_json_def subscript_def)

lemma parse_success_keys:
  "extract_fields h raw_text = Inr f \<Longrightarrow>
     dom (parse_resume_to_json h raw_text) =
       {''name'', ''email'', ''phone'', ''location'', ''skills'', ''education'', ''experience'', ''raw_text''}
     \<and> subscript (parse_resume_to_json h raw_text) ''name'' = Inr (PyStr (f_name f))"
  by (auto simp: parse_resume_to_json_def subscript_def)

theorem parse_error_keys_witness:
  "extract_fields blank_heuristics (PyInt 7) = Inl TypeError
   \<and> dom (parse_resume_to_json blank_heuristics (PyInt 7))
       = {''skills'', ''education'', ''experience'', ''raw_text''}
   \<and> subscript (parse_resume_to_json blank_heuristics (PyInt 7)) ''name'' = Inl KeyError
   \<and> subscript (parse_resume_to_json blank_heuristics (PyInt 7)) ''email'' = Inl KeyError
   \<and> subscript (parse_resume_to_json blank_heuristics (PyInt 7)) ''phone'' = Inl KeyError
   \<and> subscript (parse_resume_to_json blank_heuristics (PyInt 7)) ''location'' = Inl KeyError"
proof -
  have e: "extract_fields blank_heuristics (PyInt 7) = Inl TypeError"
    by (simp add: extract_fields_def)
  show ?thesis
    using e parse_error_keys [OF e] by simp
qed




























end
